theory Spec2Isabelle
  imports Complex_Main
begin

section \<open>Actuator directives and their wire codes\<close>

text \<open>
  \<^verbatim>\<open>class MotorAction(str, Enum)\<close> of \<^verbatim>\<open>actions/motor/interface.py\<close>: five members, each
  with a name and a string value.
\<close>

datatype MotorAction = FORWARD | BACK | LEFT | RIGHT | STOP

fun member_name :: "MotorAction \<Rightarrow> string" where
  "member_name FORWARD = ''FORWARD''"
| "member_name BACK = ''BACK''"
| "member_name LEFT = ''LEFT''"
| "member_name RIGHT = ''RIGHT''"
| "member_name STOP = ''STOP''"

fun member_value :: "MotorAction \<Rightarrow> string" where
  "member_value FORWARD = ''forward''"
| "member_value BACK = ''back''"
| "member_value LEFT = ''left''"
| "member_value RIGHT = ''right''"
| "member_value STOP = ''stop''"

text \<open>
  \<^verbatim>\<open>MotorInput\<close> is a plain dataclass: the annotation \<^verbatim>\<open>action: MotorAction\<close> is not
  enforced, so at run time the field holds either a member of the enumeration or an
  ordinary \<^verbatim>\<open>str\<close>.
\<close>

datatype action_value = Member MotorAction | Plain string

record MotorInput =
  action :: action_value

text \<open>
  \<^verbatim>\<open>str(x)\<close>. For a member of an \<^verbatim>\<open>Enum\<close> with a \<^verbatim>\<open>str\<close> mix-in, \<^verbatim>\<open>__str__\<close> is
  \<^verbatim>\<open>Enum.__str__\<close> (the enum machinery puts it back in place of the mix-in's), which
  gives class name, a dot and the member name: \<^verbatim>\<open>str(MotorAction.FORWARD)\<close> is
  \<^verbatim>\<open>'MotorAction.FORWARD'\<close>, in every Python since 3.4 (only \<^verbatim>\<open>enum.StrEnum\<close>, which the
  class does not use, prints the value). Hashing and equality are those of \<^verbatim>\<open>str\<close>, on the
  value: \<^verbatim>\<open>MotorAction.FORWARD == 'forward'\<close>. For an ordinary string \<^verbatim>\<open>str\<close> is the
  identity.
\<close>

fun py_str :: "action_value \<Rightarrow> string" where
  "py_str (Member m) = ''MotorAction.'' @ member_name m"
| "py_str (Plain s) = s"

text \<open>
  The dictionary literal \<^verbatim>\<open>signal_map\<close> of both \<^verbatim>\<open>connect\<close> methods, in the order it is
  written, and \<^verbatim>\<open>signal_map.get(key)\<close> for a string key: a member key matches when its
  value equals the string.
\<close>

definition signal_map :: "(MotorAction \<times> string) list" where
  "signal_map =
     [(FORWARD, ''F''), (BACK, ''B''), (STOP, ''S''), (LEFT, ''L''), (RIGHT, ''R'')]"

fun signal_map_get :: "(MotorAction \<times> string) list \<Rightarrow> string \<Rightarrow> string option" where
  "signal_map_get [] key = None"
| "signal_map_get ((m, v) # rest) key =
     (if member_value m = key then Some v else signal_map_get rest key)"

section \<open>Outcomes of library calls, and what a connector does to the outside\<close>

text \<open>
  A call into pyserial or the socket module either returns or raises an exception, whose
  text the connectors put into their log lines.
\<close>

datatype 'a io = Returns 'a | Raises string

text \<open>
  The calls a connector or an input source makes and the lines it logs or prints, in the
  order they happen. A call is recorded whether it returns or raises.
\<close>

datatype event =
    SerialOpen string int
  | SerialWrite string
  | SerialClose
  | SocketCreate
  | SocketSetTimeout
  | SocketSendTo string string int
  | SocketClose
  | Sleep
  | CapIsOpened
  | CapRead
  | CapRelease
  | Print string
  | LogInfo string
  | LogWarning string
  | LogError string

fun writes_of :: "event list \<Rightarrow> string list" where
  "writes_of [] = []"
| "writes_of (SerialWrite p # es) = p # writes_of es"
| "writes_of (SocketSendTo p a n # es) = p # writes_of es"
| "writes_of (e # es) = writes_of es"

fun opens_of :: "event list \<Rightarrow> nat" where
  "opens_of [] = 0"
| "opens_of (SerialOpen p b # es) = Suc (opens_of es)"
| "opens_of (SocketCreate # es) = Suc (opens_of es)"
| "opens_of (e # es) = opens_of es"

definition newline :: string where
  "newline = [CHR 0x0A]"

section \<open>The serial connector\<close>

record SerialMotorConfig =
  port :: string
  baudrate :: int

text \<open>A \<^verbatim>\<open>serial.Serial\<close> object, as far as the connector looks at it.\<close>

datatype Serial = Serial (is_open: bool)

record SerialMotor =
  config :: SerialMotorConfig
  ser :: "Serial option"

text \<open>What the three pyserial calls of one method call do.\<close>

record serial_env =
  open_result :: "Serial io"
  write_result :: "unit io"
  close_result :: "unit io"

definition SerialMotor_init :: "SerialMotorConfig \<Rightarrow> SerialMotor" where
  "SerialMotor_init c = \<lparr>config = c, ser = None\<rparr>"

definition serial_connected :: "SerialMotor \<Rightarrow> bool" where
  "serial_connected s = (case ser s of None \<Rightarrow> False | Some h \<Rightarrow> is_open h)"

definition serial_ensure_connection ::
  "serial_env \<Rightarrow> SerialMotor \<Rightarrow> bool \<times> SerialMotor \<times> event list" where
  "serial_ensure_connection env s =
     (if (case ser s of None \<Rightarrow> True | Some h \<Rightarrow> \<not> is_open h) then
        (case open_result env of
           Returns h \<Rightarrow>
             (True, s\<lparr>ser := Some h\<rparr>,
              [SerialOpen (port (config s)) (baudrate (config s)),
               LogInfo (''Successfully opened Serial Port: '' @ port (config s))])
         | Raises e \<Rightarrow>
             (False, s\<lparr>ser := None\<rparr>,
              [SerialOpen (port (config s)) (baudrate (config s)),
               LogError (''Failed to open Serial Port '' @ port (config s) @ '': '' @ e)]))
      else (True, s, []))"

text \<open>
  \<^verbatim>\<open>connect\<close> returns \<^verbatim>\<open>None\<close> or lets an exception escape: the first component is the
  escaping exception, if any. \<^verbatim>\<open>if signal:\<close> is false for \<^verbatim>\<open>None\<close> and for the empty
  string. In the handler of a failed write, \<^verbatim>\<open>close\<close> is called inside
  \<^verbatim>\<open>try ... except: pass\<close>, so its outcome is not looked at.
\<close>

definition serial_connect ::
  "serial_env \<Rightarrow> MotorInput \<Rightarrow> SerialMotor \<Rightarrow> string option \<times> SerialMotor \<times> event list" where
  "serial_connect env output_interface s =
     (case serial_ensure_connection env s of
        (ok, s1, ev1) \<Rightarrow>
          if \<not> ok then (None, s1, ev1)
          else
            let action_str = py_str (action output_interface);
                ev2 = ev1 @ [LogInfo (''Received Motor Command: '' @ action_str)];
                unknown = (None, s1, ev2 @ [LogError (''Unknown action: '' @ action_str)])
            in (case signal_map_get signal_map action_str of
                 None \<Rightarrow> unknown
               | Some signal \<Rightarrow>
                   if signal = [] then unknown
                   else
                     (case write_result env of
                        Returns u \<Rightarrow>
                          (None, s1,
                           ev2 @ [SerialWrite (signal @ newline),
                                  LogInfo (''Executed: '' @ action_str @ '' (Signal: '' @ signal @ '')'')])
                      | Raises e \<Rightarrow>
                          (None, s1\<lparr>ser := None\<rparr>,
                           ev2 @ [SerialWrite (signal @ newline),
                                  LogError (''Serial Send Error: '' @ e)]
                               @ (case ser s1 of None \<Rightarrow> [] | Some h \<Rightarrow> [SerialClose])))))"

definition serial_close ::
  "serial_env \<Rightarrow> SerialMotor \<Rightarrow> string option \<times> SerialMotor \<times> event list" where
  "serial_close env s =
     (case ser s of
        None \<Rightarrow> (None, s, [])
      | Some h \<Rightarrow>
          if is_open h then
            (case close_result env of
               Returns u \<Rightarrow> (None, s\<lparr>ser := None\<rparr>, [SerialClose])
             | Raises e \<Rightarrow> (Some e, s, [SerialClose]))
          else (None, s, []))"

section \<open>The UDP connector\<close>

record WifiMotorConfig =
  ip_address :: string
  udp_port :: int

text \<open>A socket object; the connector only tests whether it has one.\<close>

datatype Socket = Socket

record WifiMotor =
  wifi_config :: WifiMotorConfig
  sock :: "Socket option"

record wifi_env =
  socket_result :: "Socket io"
  sendto_result :: "unit io"
  sock_close_result :: "unit io"

definition WifiMotor_init :: "WifiMotorConfig \<Rightarrow> WifiMotor" where
  "WifiMotor_init c = \<lparr>wifi_config = c, sock = None\<rparr>"

definition wifi_connected :: "WifiMotor \<Rightarrow> bool" where
  "wifi_connected s = (sock s \<noteq> None)"

text \<open>
  \<^verbatim>\<open>settimeout(1.0)\<close> stores a constant, valid timeout in the socket just created; it is
  recorded as a call that returns.
\<close>

definition wifi_ensure_connection ::
  "wifi_env \<Rightarrow> WifiMotor \<Rightarrow> bool \<times> WifiMotor \<times> event list" where
  "wifi_ensure_connection env s =
     (if sock s = None then
        (case socket_result env of
           Returns k \<Rightarrow>
             (True, s\<lparr>sock := Some k\<rparr>,
              [SocketCreate, SocketSetTimeout, LogInfo ''UDP Socket created successfully.''])
         | Raises e \<Rightarrow>
             (False, s\<lparr>sock := None\<rparr>,
              [SocketCreate, LogError (''Failed to create UDP socket: '' @ e)]))
      else (True, s, []))"

text \<open>
  In the handler of a failed send, \<^verbatim>\<open>self.sock.close()\<close> stands outside any \<^verbatim>\<open>try\<close>: if
  it raises, the exception leaves \<^verbatim>\<open>connect\<close> before \<^verbatim>\<open>self.sock = None\<close> runs.
\<close>

definition wifi_connect ::
  "wifi_env \<Rightarrow> MotorInput \<Rightarrow> WifiMotor \<Rightarrow> string option \<times> WifiMotor \<times> event list" where
  "wifi_connect env output_interface s =
     (case wifi_ensure_connection env s of
        (ok, s1, ev1) \<Rightarrow>
          if \<not> ok then (None, s1, ev1)
          else
            let action_str = py_str (action output_interface);
                ev2 = ev1 @ [LogInfo (''Received Motor Command: '' @ action_str)];
                unknown = (None, s1, ev2 @ [LogError (''Unknown action: '' @ action_str)])
            in (case signal_map_get signal_map action_str of
                 None \<Rightarrow> unknown
               | Some signal \<Rightarrow>
                   if signal = [] then unknown
                   else
                     (let send = SocketSendTo signal (ip_address (wifi_config s1))
                                   (udp_port (wifi_config s1))
                      in (case sendto_result env of
                            Returns u \<Rightarrow>
                              (None, s1, ev2 @ [send, LogInfo (''Sent UDP: '' @ signal)])
                          | Raises e \<Rightarrow>
                              (let ev3 = ev2 @ [send, LogError (''UDP Send Error: '' @ e)]
                               in (case sock s1 of
                                     None \<Rightarrow> (None, s1\<lparr>sock := None\<rparr>, ev3)
                                   | Some k \<Rightarrow>
                                       (case sock_close_result env of
                                          Returns u \<Rightarrow>
                                            (None, s1\<lparr>sock := None\<rparr>, ev3 @ [SocketClose])
                                        | Raises c \<Rightarrow>
                                            (Some c, s1, ev3 @ [SocketClose]))))))))"

definition wifi_close ::
  "wifi_env \<Rightarrow> WifiMotor \<Rightarrow> string option \<times> WifiMotor \<times> event list" where
  "wifi_close env s =
     (case sock s of
        None \<Rightarrow> (None, s, [])
      | Some k \<Rightarrow>
          (case sock_close_result env of
             Returns u \<Rightarrow> (None, s\<lparr>sock := None\<rparr>, [SocketClose])
           | Raises e \<Rightarrow> (Some e, s, [SocketClose])))"

section \<open>Messages and the provenance collaborator\<close>

text \<open>
  \<^verbatim>\<open>Message(timestamp, message)\<close> of \<^verbatim>\<open>inputs.base\<close>; the time stamps are readings of
  \<^verbatim>\<open>time.time()\<close>, which the sources only store and pass on. The collaborators
  (\<^verbatim>\<open>IOProvider.add_input\<close>, \<^verbatim>\<open>TeleopsConversationProvider.store_user_message\<close>) are
  outside the repository: the model keeps the list of calls made to them.
\<close>

record Message =
  timestamp :: real
  message :: string

type_synonym add_input_call = "string \<times> string \<times> real"

section \<open>The operator-command source\<close>

record Esp32Control =
  running :: bool
  messages :: "string list"
  descriptor_for_LLM :: string
  message_buffer :: "string list"
  io_provider :: "add_input_call list"
  conversation_provider :: "string list"

definition Esp32Control_init :: Esp32Control where
  "Esp32Control_init =
     \<lparr>running = True, messages = [], descriptor_for_LLM = ''User'', message_buffer = [],
      io_provider = [], conversation_provider = []\<rparr>"

text \<open>
  Strings are sequences of code points below 256, one \<^typ>\<open>char\<close> each. \<^verbatim>\<open>str.strip()\<close>
  removes leading and trailing white space; these are the code points below 256 for
  which \<^verbatim>\<open>str.isspace\<close> holds.
\<close>

definition isspace :: "char \<Rightarrow> bool" where
  "isspace c = (of_char c \<in> set [9, 10, 11, 12, 13, 28, 29, 30, 31, 32, 133, 160 :: nat])"

definition strip :: "string \<Rightarrow> string" where
  "strip s = rev (dropWhile isspace (rev (dropWhile isspace s)))"

text \<open>One call of \<^verbatim>\<open>input()\<close> in the reading thread.\<close>

datatype read_outcome = Line string | EOFError | OtherError string

text \<open>
  One turn of the \<^verbatim>\<open>while self.running\<close> loop of \<^verbatim>\<open>_input_loop\<close>; the first component
  says whether the loop goes on.
\<close>

definition input_loop_iteration ::
  "read_outcome \<Rightarrow> Esp32Control \<Rightarrow> bool \<times> Esp32Control \<times> event list" where
  "input_loop_iteration r s =
     (if \<not> running s then (False, s, [])
      else
        (case r of
           Line user_input \<Rightarrow>
             if strip user_input \<noteq> [] then
               (True, s\<lparr>message_buffer := message_buffer s @ [user_input]\<rparr>,
                [Print (''DEBUG: Input received: '' @ user_input)])
             else (True, s, [])
         | EOFError \<Rightarrow> (False, s, [])
         | OtherError e \<Rightarrow> (False, s, [LogError (''Input error: '' @ e)])))"

text \<open>\<^verbatim>\<open>_poll\<close>: after the sleep, \<^verbatim>\<open>get_nowait\<close> takes the head of the queue, if any.\<close>

definition control_poll :: "Esp32Control \<Rightarrow> string option \<times> Esp32Control" where
  "control_poll s =
     (case message_buffer s of
        [] \<Rightarrow> (None, s)
      | m # rest \<Rightarrow> (Some m, s\<lparr>message_buffer := rest\<rparr>))"

definition control_stop :: "Esp32Control \<Rightarrow> Esp32Control" where
  "control_stop s = s\<lparr>running := False\<rparr>"

text \<open>
  The reading thread and the scheduler side by side. A schedule lists, in the order they
  take effect, the turns of the thread's loop (each with what \<^verbatim>\<open>input()\<close> gives), the
  calls of \<^verbatim>\<open>_poll\<close> and the calls of \<^verbatim>\<open>stop\<close>. A turn reads the flag at its start and
  touches the queue only by its \<^verbatim>\<open>put\<close> at its end, so a \<^verbatim>\<open>_poll\<close> during the blocking
  read is one scheduled before the turn, and a \<^verbatim>\<open>stop\<close> during it is one scheduled after.
  The boolean of the state says whether the thread is still in its loop; the result
  lists what the calls of \<^verbatim>\<open>_poll\<close> returned.
\<close>

datatype bridge_action = ThreadTurn read_outcome | PollCall | StopCall

fun run_bridge ::
  "bridge_action list \<Rightarrow> bool \<Rightarrow> Esp32Control \<Rightarrow> (bool \<times> Esp32Control) \<times> string option list" where
  "run_bridge [] alive s = ((alive, s), [])"
| "run_bridge (ThreadTurn r # rest) alive s =
     (if alive then
        (case input_loop_iteration r s of (continue, s1, ev) \<Rightarrow> run_bridge rest continue s1)
      else run_bridge rest alive s)"
| "run_bridge (PollCall # rest) alive s =
     (case control_poll s of
        (m, s1) \<Rightarrow> (case run_bridge rest alive s1 of (st, ms) \<Rightarrow> (st, m # ms)))"
| "run_bridge (StopCall # rest) alive s = run_bridge rest alive (control_stop s)"

text \<open>
  The lines that \<^verbatim>\<open>input()\<close> handed to the thread under a schedule: those of the turns
  taken while the thread was in its loop and saw the flag set, up to the first end of
  input or error.
\<close>

fun lines_read :: "bridge_action list \<Rightarrow> bool \<Rightarrow> bool \<Rightarrow> string list" where
  "lines_read [] alive flag = []"
| "lines_read (ThreadTurn r # rest) alive flag =
     (if alive \<and> flag then
        (case r of
           Line l \<Rightarrow> l # lines_read rest True flag
         | EOFError \<Rightarrow> []
         | OtherError e \<Rightarrow> [])
      else [])"
| "lines_read (PollCall # rest) alive flag = lines_read rest alive flag"
| "lines_read (StopCall # rest) alive flag = lines_read rest alive False"

fun received :: "string option list \<Rightarrow> string list" where
  "received [] = []"
| "received (None # ms) = received ms"
| "received (Some m # ms) = m # received ms"

definition control_private_raw_to_text :: "real \<Rightarrow> string option \<Rightarrow> Message option" where
  "control_private_raw_to_text now raw_input =
     (case raw_input of
        None \<Rightarrow> None
      | Some r \<Rightarrow> Some \<lparr>timestamp = now, message = r\<rparr>)"

text \<open>
  \<^verbatim>\<open>raw_to_text\<close>: the buffer holds texts only; the time stamp of the pending Message is
  not kept. \<^verbatim>\<open>self.messages[-1] = ...\<close> overwrites the last entry.
\<close>

definition control_raw_to_text :: "real \<Rightarrow> string option \<Rightarrow> Esp32Control \<Rightarrow> Esp32Control" where
  "control_raw_to_text now raw_input s =
     (case control_private_raw_to_text now raw_input of
        None \<Rightarrow> s
      | Some pending_message \<Rightarrow>
          if length (messages s) = 0 then
            s\<lparr>messages := messages s @ [message pending_message]\<rparr>
          else
            s\<lparr>messages := (messages s)
                 [length (messages s) - 1 :=
                    last (messages s) @ '' '' @ message pending_message]\<rparr>)"

text \<open>
  \<^verbatim>\<open>formatted_latest_buffer\<close>; \<open>now\<close> is the reading of \<^verbatim>\<open>time.time()\<close> taken inside it.
\<close>

definition control_formatted_latest_buffer ::
  "real \<Rightarrow> Esp32Control \<Rightarrow> string option \<times> Esp32Control" where
  "control_formatted_latest_buffer now s =
     (if length (messages s) = 0 then (None, s)
      else
        let current_msg = last (messages s);
            result = ''User Command: '' @ current_msg
        in (Some result,
            s\<lparr>io_provider := io_provider s @ [(descriptor_for_LLM s, current_msg, now)],
              conversation_provider := conversation_provider s @ [current_msg],
              messages := []\<rparr>))"

section \<open>The video source\<close>

text \<open>A frame, as far as the source looks at it: \<^verbatim>\<open>raw_input.shape[:2]\<close>.\<close>

record Frame =
  height :: nat
  width :: nat

datatype VideoCapture = VideoCapture string

record Esp32CamVideo =
  stream_url :: string
  stream_type :: string
  fps :: int
  analyze_with_vlm :: bool
  cap :: "VideoCapture option"
  cam_messages :: "Message list"
  cam_descriptor_for_LLM :: string
  cam_io_provider :: "add_input_call list"

text \<open>
  \<^verbatim>\<open>__init__\<close>: the capture object is kept when the constructor returns, whether or not it
  reports itself open; when the constructor raises, \<^verbatim>\<open>cap\<close> stays \<^verbatim>\<open>None\<close>.
\<close>

definition Esp32CamVideo_init ::
  "string \<Rightarrow> string \<Rightarrow> int \<Rightarrow> bool \<Rightarrow> VideoCapture io \<Rightarrow> Esp32CamVideo" where
  "Esp32CamVideo_init url kind rate vlm capture =
     \<lparr>stream_url = url, stream_type = kind, fps = rate, analyze_with_vlm = vlm,
      cap = (case capture of Returns c \<Rightarrow> Some c | Raises e \<Rightarrow> None),
      cam_messages = [], cam_descriptor_for_LLM = ''ESP32-CAM Video'', cam_io_provider = []\<rparr>"

text \<open>What the capture object answers during one method call.\<close>

record video_env =
  isOpened_result :: bool
  read_result :: "bool \<times> Frame option"

definition class_name :: string where
  "class_name = ''Esp32CamVideo''"

text \<open>
  \<^verbatim>\<open>_poll\<close>: \<^verbatim>\<open>1.0 / self.fps\<close> raises for \<^verbatim>\<open>fps = 0\<close>, before anything else is done. The
  components of the result: the escaping exception if any, the sample, the source after
  the call, what was done.
\<close>

definition video_poll ::
  "video_env \<Rightarrow> Esp32CamVideo \<Rightarrow> string option \<times> Frame option \<times> Esp32CamVideo \<times> event list" where
  "video_poll env s =
     (if fps s = 0 then (Some ''ZeroDivisionError'', None, s, [])
      else
        (case cap s of
           None \<Rightarrow> (None, None, s, [Sleep])
         | Some c \<Rightarrow>
             if \<not> isOpened_result env then (None, None, s, [Sleep, CapIsOpened])
             else
               (case read_result env of
                  (ret, frame) \<Rightarrow>
                    if ret then (None, frame, s, [Sleep, CapIsOpened, CapRead])
                    else
                      (None, None, s,
                       [Sleep, CapIsOpened, CapRead,
                        LogWarning ''Failed to read frame from video stream'']))))"

definition video_stop :: "video_env \<Rightarrow> Esp32CamVideo \<Rightarrow> Esp32CamVideo \<times> event list" where
  "video_stop env s =
     (case cap s of
        None \<Rightarrow> (s, [])
      | Some c \<Rightarrow>
          if isOpened_result env then
            (s, [CapIsOpened, CapRelease, LogInfo ''ESP32-CAM video stream stopped''])
          else (s, [CapIsOpened]))"

fun releases_of :: "event list \<Rightarrow> nat" where
  "releases_of [] = 0"
| "releases_of (CapRelease # es) = Suc (releases_of es)"
| "releases_of (e # es) = releases_of es"

fun warnings_of :: "event list \<Rightarrow> string list" where
  "warnings_of [] = []"
| "warnings_of (LogWarning w # es) = w # warnings_of es"
| "warnings_of (e # es) = warnings_of es"

fun logs_of :: "event list \<Rightarrow> event list" where
  "logs_of [] = []"
| "logs_of (LogInfo w # es) = LogInfo w # logs_of es"
| "logs_of (LogWarning w # es) = LogWarning w # logs_of es"
| "logs_of (LogError w # es) = LogError w # logs_of es"
| "logs_of (Print w # es) = Print w # logs_of es"
| "logs_of (e # es) = logs_of es"

text \<open>Decimal digits of a natural number, as an f-string prints an \<^verbatim>\<open>int\<close>.\<close>

fun show_nat :: "nat \<Rightarrow> string" where
  "show_nat n =
     (if n < 10 then [char_of (48 + n)]
      else show_nat (n div 10) @ [char_of (48 + n mod 10)])"

declare show_nat.simps [simp del]

text \<open>
  \<^verbatim>\<open>_raw_to_text\<close>; \<open>clock\<close> is the text of \<^verbatim>\<open>time.strftime("%H:%M:%S")\<close> and \<open>now\<close> the
  reading of \<^verbatim>\<open>time.time()\<close>.
\<close>

definition video_private_raw_to_text ::
  "string \<Rightarrow> real \<Rightarrow> Frame option \<Rightarrow> Esp32CamVideo \<Rightarrow> Message option" where
  "video_private_raw_to_text clock now raw_input s =
     (case raw_input of
        None \<Rightarrow> None
      | Some f \<Rightarrow>
          Some \<lparr>timestamp = now,
                message =
                  ''Received video frame at '' @ clock @ '' ('' @ show_nat (width f) @ ''x''
                  @ show_nat (height f) @ '' pixels). ''
                  @ (if analyze_with_vlm s then ''Ready for VLM analysis.''
                     else ''Video stream active.'')\<rparr>)"

definition video_raw_to_text ::
  "string \<Rightarrow> real \<Rightarrow> Frame option \<Rightarrow> Esp32CamVideo \<Rightarrow> Esp32CamVideo" where
  "video_raw_to_text clock now raw_input s =
     (case video_private_raw_to_text clock now raw_input s of
        None \<Rightarrow> s
      | Some pending_message \<Rightarrow> s\<lparr>cam_messages := cam_messages s @ [pending_message]\<rparr>)"

text \<open>The f-string of \<^verbatim>\<open>formatted_latest_buffer\<close>, for a label and a message text.\<close>

definition envelope :: "string \<Rightarrow> string \<Rightarrow> string" where
  "envelope d m =
     newline @ ''INPUT: '' @ d @ newline @ ''// START'' @ newline @ m @ newline
     @ ''// END'' @ newline"

definition video_formatted_latest_buffer ::
  "Esp32CamVideo \<Rightarrow> string option \<times> Esp32CamVideo" where
  "video_formatted_latest_buffer s =
     (if length (cam_messages s) = 0 then (None, s)
      else
        let latest_message = last (cam_messages s);
            result = envelope (cam_descriptor_for_LLM s) (message latest_message)
        in (Some result,
            s\<lparr>cam_io_provider := cam_io_provider s
                 @ [(class_name, message latest_message, timestamp latest_message)],
              cam_messages := []\<rparr>))"

text \<open>A text contains a label when the label occurs in it as a run of characters.\<close>

fun contains_text :: "string \<Rightarrow> string \<Rightarrow> bool" where
  "contains_text [] label = (label = [])"
| "contains_text (c # cs) label =
     (take (length label) (c # cs) = label \<or> contains_text cs label)"

section \<open>Dispatch through the connectors\<close>

lemmas motor_defs = serial_connect_def serial_ensure_connection_def serial_close_def
  wifi_connect_def wifi_ensure_connection_def wifi_close_def signal_map_def newline_def
  serial_connected_def wifi_connected_def Let_def

text \<open>
  For a directive given as the plain string of a member's value, the look-up finds the
  code, and a connected connector makes one write: the code and a line feed on the serial
  line, the bare code in the datagram. A directive that the look-up does not find is
  logged and nothing is written.
\<close>

lemma lookup_member: "signal_map_get signal_map (py_str (Member m)) = None"
  by (cases m) (simp_all add: signal_map_def)

lemma lookup_plain_value:
  "signal_map_get signal_map (py_str (Plain (member_value m))) =
     Some (case m of FORWARD \<Rightarrow> ''F'' | BACK \<Rightarrow> ''B'' | LEFT \<Rightarrow> ''L'' | RIGHT \<Rightarrow> ''R'' | STOP \<Rightarrow> ''S'')"
  by (cases m) (simp_all add: signal_map_def)

lemma lookup_codes:
  "signal_map_get signal_map key = Some signal \<Longrightarrow> signal \<in> {''F'', ''B'', ''S'', ''L'', ''R''}"
  by (auto simp: signal_map_def split: if_splits)

lemma member_dispatch_writes_nothing:
  "writes_of (snd (snd (serial_connect env \<lparr>action = Member m\<rparr> s))) = []"
  "writes_of (snd (snd (wifi_connect wenv \<lparr>action = Member m\<rparr> w))) = []"
  by (auto simp: serial_connect_def wifi_connect_def serial_ensure_connection_def
      wifi_ensure_connection_def lookup_member Let_def simp del: py_str.simps
      split: io.splits option.splits)

lemma plain_dispatch_serial:
  assumes "serial_connected s"
  shows "writes_of (snd (snd (serial_connect env \<lparr>action = Plain (member_value m)\<rparr> s))) =
     [the (signal_map_get signal_map (member_value m)) @ newline]"
  using assms by (cases m) (auto simp: motor_defs split: io.splits option.splits)

lemma plain_dispatch_wifi:
  assumes "wifi_connected w"
  shows "writes_of (snd (snd (wifi_connect env \<lparr>action = Plain (member_value m)\<rparr> w))) =
     [the (signal_map_get signal_map (member_value m))]"
  using assms by (cases m) (auto simp: motor_defs split: io.splits option.splits)

lemma unknown_directive_not_sent:
  assumes "signal_map_get signal_map (py_str a) = None"
  shows "writes_of (snd (snd (serial_connect env \<lparr>action = a\<rparr> s))) = []"
    and "writes_of (snd (snd (wifi_connect wenv \<lparr>action = a\<rparr> w))) = []"
  using assms
  by (auto simp: serial_connect_def wifi_connect_def serial_ensure_connection_def
      wifi_ensure_connection_def Let_def split: io.splits option.splits)

text \<open>
  \<^bold>\<open>C1\<close>. Claimed: dispatching any of the five members of the enumeration through a
  connected connector makes exactly one write, \<^verbatim>\<open>F\n\<close> on the serial line and \<^verbatim>\<open>F\<close> in the
  datagram for Forward. The repository's tests assert the same
  (\<^verbatim>\<open>test_connect_sends_forward_command\<close>: \<^verbatim>\<open>write\<close> called once with \<^verbatim>\<open>b"F\n"\<close>). On the
  code, \<^verbatim>\<open>connect\<close> looks up \<^verbatim>\<open>str(action)\<close>, which for the member \<^verbatim>\<open>MotorAction.FORWARD\<close> is
  the text \<^verbatim>\<open>MotorAction.FORWARD\<close>; no key of \<^verbatim>\<open>signal_map\<close> equals it, so both connectors
  log an unknown action and write nothing.
\<close>

theorem member_dispatch_unknown_action:
  "serial_connect
     \<lparr>open_result = Raises ''unused'', write_result = Returns (), close_result = Returns ()\<rparr>
     \<lparr>action = Member FORWARD\<rparr>
     \<lparr>config = \<lparr>port = ''COM3'', baudrate = 115200\<rparr>, ser = Some (Serial True)\<rparr>
   = (None, \<lparr>config = \<lparr>port = ''COM3'', baudrate = 115200\<rparr>, ser = Some (Serial True)\<rparr>,
      [LogInfo ''Received Motor Command: MotorAction.FORWARD'',
       LogError ''Unknown action: MotorAction.FORWARD''])
   \<and> wifi_connect
     \<lparr>socket_result = Raises ''unused'', sendto_result = Returns (),
      sock_close_result = Returns ()\<rparr>
     \<lparr>action = Member FORWARD\<rparr>
     \<lparr>wifi_config = \<lparr>ip_address = ''192.168.4.1'', udp_port = 8888\<rparr>, sock = Some Socket\<rparr>
   = (None, \<lparr>wifi_config = \<lparr>ip_address = ''192.168.4.1'', udp_port = 8888\<rparr>, sock = Some Socket\<rparr>,
      [LogInfo ''Received Motor Command: MotorAction.FORWARD'',
       LogError ''Unknown action: MotorAction.FORWARD''])"
  by (simp add: motor_defs)

text \<open>
  \<^bold>\<open>C2\<close>. Claimed: for every member of the enumeration the look-up in \<^verbatim>\<open>signal_map\<close> keyed
  by the stringified action succeeds, so the unknown-action branch cannot be reached with
  a member. On the code the look-up fails for each of the five members, for the reason
  given under C1; it succeeds only for the plain strings \<^verbatim>\<open>forward\<close>, \<^verbatim>\<open>back\<close>, \<^verbatim>\<open>left\<close>,
  \<^verbatim>\<open>right\<close>, \<^verbatim>\<open>stop\<close> (\<open>lookup_plain_value\<close>).
\<close>

theorem member_lookup_fails:
  "map (\<lambda>m. signal_map_get signal_map (py_str (Member m))) [FORWARD, BACK, LEFT, RIGHT, STOP]
   = [None, None, None, None, None]"
  by (simp add: signal_map_def)

text \<open>
  \<^bold>\<open>C3\<close>. Claimed: in both connectors a failed write discards the handle, lets no exception
  reach the caller, and makes the next \<^verbatim>\<open>_ensure_connection\<close> open afresh. The serial
  connector does so whatever \<^verbatim>\<open>close\<close> does (\<open>serial_write_failure_discards\<close>), and the UDP
  connector does so when \<^verbatim>\<open>close\<close> returns (\<open>wifi_write_failure_discards\<close>). In the UDP
  connector \<^verbatim>\<open>self.sock.close()\<close> is not guarded as it is in the serial one: when the send
  fails and \<^verbatim>\<open>close\<close> raises as well, the exception leaves \<^verbatim>\<open>connect\<close>, the socket stays
  in place, and the next \<^verbatim>\<open>_ensure_connection\<close> answers true without creating a socket.
\<close>

theorem wifi_write_failure_close_raises:
  "wifi_connect
     \<lparr>socket_result = Returns Socket, sendto_result = Raises ''unreachable'',
      sock_close_result = Raises ''bad descriptor''\<rparr>
     \<lparr>action = Plain ''forward''\<rparr>
     \<lparr>wifi_config = \<lparr>ip_address = ''192.168.4.1'', udp_port = 8888\<rparr>, sock = Some Socket\<rparr>
   = (Some ''bad descriptor'',
      \<lparr>wifi_config = \<lparr>ip_address = ''192.168.4.1'', udp_port = 8888\<rparr>, sock = Some Socket\<rparr>,
      [LogInfo ''Received Motor Command: forward'',
       SocketSendTo ''F'' ''192.168.4.1'' 8888,
       LogError ''UDP Send Error: unreachable'', SocketClose])
   \<and> wifi_ensure_connection
     \<lparr>socket_result = Returns Socket, sendto_result = Returns (),
      sock_close_result = Returns ()\<rparr>
     \<lparr>wifi_config = \<lparr>ip_address = ''192.168.4.1'', udp_port = 8888\<rparr>, sock = Some Socket\<rparr>
   = (True,
      \<lparr>wifi_config = \<lparr>ip_address = ''192.168.4.1'', udp_port = 8888\<rparr>, sock = Some Socket\<rparr>,
      [])"
  by (simp add: motor_defs)

lemma serial_write_failure_discards:
  assumes "fst (serial_ensure_connection env s)"
    and "signal_map_get signal_map (py_str a) = Some signal"
    and "write_result env = Raises e"
  shows "fst (serial_connect env \<lparr>action = a\<rparr> s) = None"
    and "ser (fst (snd (serial_connect env \<lparr>action = a\<rparr> s))) = None"
    and "writes_of (snd (snd (serial_connect env \<lparr>action = a\<rparr> s))) = [signal @ newline]"
    and "opens_of (snd (snd (serial_ensure_connection env2
            (fst (snd (serial_connect env \<lparr>action = a\<rparr> s)))))) = 1"
  using assms lookup_codes[of "py_str a" signal]
  by (auto simp: serial_connect_def serial_ensure_connection_def Let_def
      split: io.splits option.splits if_splits)

lemma wifi_write_failure_discards:
  assumes "fst (wifi_ensure_connection env s)"
    and "signal_map_get signal_map (py_str a) = Some signal"
    and "sendto_result env = Raises e"
    and "sock_close_result env = Returns ()"
  shows "fst (wifi_connect env \<lparr>action = a\<rparr> s) = None"
    and "sock (fst (snd (wifi_connect env \<lparr>action = a\<rparr> s))) = None"
    and "writes_of (snd (snd (wifi_connect env \<lparr>action = a\<rparr> s))) = [signal]"
    and "opens_of (snd (snd (wifi_ensure_connection env2
            (fst (snd (wifi_connect env \<lparr>action = a\<rparr> s)))))) = 1"
  using assms lookup_codes[of "py_str a" signal]
  by (auto simp: wifi_connect_def wifi_ensure_connection_def Let_def
      split: io.splits option.splits if_splits)

text \<open>
  \<^bold>\<open>C4\<close>. \<^verbatim>\<open>_ensure_connection\<close> of both connectors: when connected (serial: a handle
  that is open; UDP: a socket object) it answers true, changes nothing and calls nothing;
  when not connected and the open succeeds (for the serial line, with a handle that is
  open, as pyserial returns it) it answers true, the connector is connected, and this call
  followed by a second one opens exactly once; when the open raises it answers false and
  the connector is not connected.
\<close>

theorem ensure_open_idempotent:
  "(serial_connected s \<longrightarrow> serial_ensure_connection env s = (True, s, []))
   \<and> (wifi_connected w \<longrightarrow> wifi_ensure_connection wenv w = (True, w, []))
   \<and> (\<not> serial_connected s \<and> open_result env = Returns h \<and> is_open h \<longrightarrow>
        fst (serial_ensure_connection env s)
        \<and> serial_connected (fst (snd (serial_ensure_connection env s)))
        \<and> opens_of (snd (snd (serial_ensure_connection env s))
             @ snd (snd (serial_ensure_connection env2
                 (fst (snd (serial_ensure_connection env s)))))) = 1)
   \<and> (\<not> wifi_connected w \<and> socket_result wenv = Returns k \<longrightarrow>
        fst (wifi_ensure_connection wenv w)
        \<and> wifi_connected (fst (snd (wifi_ensure_connection wenv w)))
        \<and> opens_of (snd (snd (wifi_ensure_connection wenv w))
             @ snd (snd (wifi_ensure_connection wenv2
                 (fst (snd (wifi_ensure_connection wenv w)))))) = 1)
   \<and> (\<not> serial_connected s \<and> open_result env = Raises e \<longrightarrow>
        \<not> fst (serial_ensure_connection env s)
        \<and> \<not> serial_connected (fst (snd (serial_ensure_connection env s))))
   \<and> (\<not> wifi_connected w \<and> socket_result wenv = Raises e \<longrightarrow>
        \<not> fst (wifi_ensure_connection wenv w)
        \<and> \<not> wifi_connected (fst (snd (wifi_ensure_connection wenv w))))"
  by (auto simp: serial_ensure_connection_def wifi_ensure_connection_def
      serial_connected_def wifi_connected_def split: option.splits)

theorem ensure_open_idempotent_witness:
  "serial_connected \<lparr>config = \<lparr>port = ''COM3'', baudrate = 115200\<rparr>, ser = Some (Serial True)\<rparr>
   \<and> serial_ensure_connection
        \<lparr>open_result = Raises ''busy'', write_result = Returns (), close_result = Returns ()\<rparr>
        \<lparr>config = \<lparr>port = ''COM3'', baudrate = 115200\<rparr>, ser = Some (Serial True)\<rparr>
      = (True, \<lparr>config = \<lparr>port = ''COM3'', baudrate = 115200\<rparr>, ser = Some (Serial True)\<rparr>, [])
   \<and> wifi_connected \<lparr>wifi_config = \<lparr>ip_address = ''192.168.4.1'', udp_port = 8888\<rparr>, sock = Some Socket\<rparr>
   \<and> wifi_ensure_connection
        \<lparr>socket_result = Raises ''no descriptors'', sendto_result = Returns (),
         sock_close_result = Returns ()\<rparr>
        \<lparr>wifi_config = \<lparr>ip_address = ''192.168.4.1'', udp_port = 8888\<rparr>, sock = Some Socket\<rparr>
      = (True, \<lparr>wifi_config = \<lparr>ip_address = ''192.168.4.1'', udp_port = 8888\<rparr>, sock = Some Socket\<rparr>, [])
   \<and> \<not> serial_connected (SerialMotor_init \<lparr>port = ''COM3'', baudrate = 115200\<rparr>)
   \<and> is_open (Serial True)
   \<and> opens_of (snd (snd (serial_ensure_connection
        \<lparr>open_result = Returns (Serial True), write_result = Returns (), close_result = Returns ()\<rparr>
        (SerialMotor_init \<lparr>port = ''COM3'', baudrate = 115200\<rparr>)))
       @ snd (snd (serial_ensure_connection
        \<lparr>open_result = Returns (Serial True), write_result = Returns (), close_result = Returns ()\<rparr>
        (fst (snd (serial_ensure_connection
        \<lparr>open_result = Returns (Serial True), write_result = Returns (), close_result = Returns ()\<rparr>
        (SerialMotor_init \<lparr>port = ''COM3'', baudrate = 115200\<rparr>))))))) = 1
   \<and> \<not> wifi_connected (WifiMotor_init \<lparr>ip_address = ''192.168.4.1'', udp_port = 8888\<rparr>)
   \<and> opens_of (snd (snd (wifi_ensure_connection
        \<lparr>socket_result = Returns Socket, sendto_result = Returns (), sock_close_result = Returns ()\<rparr>
        (WifiMotor_init \<lparr>ip_address = ''192.168.4.1'', udp_port = 8888\<rparr>)))
       @ snd (snd (wifi_ensure_connection
        \<lparr>socket_result = Returns Socket, sendto_result = Returns (), sock_close_result = Returns ()\<rparr>
        (fst (snd (wifi_ensure_connection
        \<lparr>socket_result = Returns Socket, sendto_result = Returns (), sock_close_result = Returns ()\<rparr>
        (WifiMotor_init \<lparr>ip_address = ''192.168.4.1'', udp_port = 8888\<rparr>))))))) = 1
   \<and> \<not> fst (serial_ensure_connection
        \<lparr>open_result = Raises ''busy'', write_result = Returns (), close_result = Returns ()\<rparr>
        (SerialMotor_init \<lparr>port = ''COM3'', baudrate = 115200\<rparr>))
   \<and> \<not> fst (wifi_ensure_connection
        \<lparr>socket_result = Raises ''no descriptors'', sendto_result = Returns (),
         sock_close_result = Returns ()\<rparr>
        (WifiMotor_init \<lparr>ip_address = ''192.168.4.1'', udp_port = 8888\<rparr>))"
  using ensure_open_idempotent
    [of "\<lparr>config = \<lparr>port = ''COM3'', baudrate = 115200\<rparr>, ser = Some (Serial True)\<rparr>"
        "\<lparr>open_result = Raises ''busy'', write_result = Returns (), close_result = Returns ()\<rparr>"
        "\<lparr>wifi_config = \<lparr>ip_address = ''192.168.4.1'', udp_port = 8888\<rparr>, sock = Some Socket\<rparr>"
        "\<lparr>socket_result = Raises ''no descriptors'', sendto_result = Returns (),
         sock_close_result = Returns ()\<rparr>"]
    ensure_open_idempotent
    [of "SerialMotor_init \<lparr>port = ''COM3'', baudrate = 115200\<rparr>"
        "\<lparr>open_result = Returns (Serial True), write_result = Returns (), close_result = Returns ()\<rparr>"
        "WifiMotor_init \<lparr>ip_address = ''192.168.4.1'', udp_port = 8888\<rparr>"
        "\<lparr>socket_result = Returns Socket, sendto_result = Returns (), sock_close_result = Returns ()\<rparr>"
        "Serial True"
        "\<lparr>open_result = Returns (Serial True), write_result = Returns (), close_result = Returns ()\<rparr>"
        Socket
        "\<lparr>socket_result = Returns Socket, sendto_result = Returns (), sock_close_result = Returns ()\<rparr>"]
    ensure_open_idempotent
    [of "SerialMotor_init \<lparr>port = ''COM3'', baudrate = 115200\<rparr>"
        "\<lparr>open_result = Raises ''busy'', write_result = Returns (), close_result = Returns ()\<rparr>"
        "WifiMotor_init \<lparr>ip_address = ''192.168.4.1'', udp_port = 8888\<rparr>"
        "\<lparr>socket_result = Raises ''no descriptors'', sendto_result = Returns (),
         sock_close_result = Returns ()\<rparr>"
        _ _ _ _ "''busy''"]
  by (simp add: serial_connected_def wifi_connected_def SerialMotor_init_def WifiMotor_init_def
      serial_ensure_connection_def wifi_ensure_connection_def)


text \<open>
  \<^bold>\<open>C7\<close>. Claimed: discarding a handle never lets an exception reach the caller, in the
  clean-up after a failed write as in \<^verbatim>\<open>close()\<close>, and is a no-op when there is no handle.
  The no-op holds (\<open>close_when_disconnected\<close>), and the serial clean-up swallows a failing
  \<^verbatim>\<open>close\<close> (\<open>serial_write_failure_discards\<close>). The \<^verbatim>\<open>close()\<close> methods of both connectors
  call the library's \<^verbatim>\<open>close\<close> outside any \<^verbatim>\<open>try\<close>: when it raises, the exception reaches
  the caller and the handle stays in place.
\<close>

theorem close_raises_propagates:
  "wifi_close
     \<lparr>socket_result = Returns Socket, sendto_result = Returns (),
      sock_close_result = Raises ''bad descriptor''\<rparr>
     \<lparr>wifi_config = \<lparr>ip_address = ''192.168.4.1'', udp_port = 8888\<rparr>, sock = Some Socket\<rparr>
   = (Some ''bad descriptor'',
      \<lparr>wifi_config = \<lparr>ip_address = ''192.168.4.1'', udp_port = 8888\<rparr>, sock = Some Socket\<rparr>,
      [SocketClose])
   \<and> serial_close
     \<lparr>open_result = Raises ''unused'', write_result = Returns (),
      close_result = Raises ''device gone''\<rparr>
     \<lparr>config = \<lparr>port = ''COM3'', baudrate = 115200\<rparr>, ser = Some (Serial True)\<rparr>
   = (Some ''device gone'',
      \<lparr>config = \<lparr>port = ''COM3'', baudrate = 115200\<rparr>, ser = Some (Serial True)\<rparr>,
      [SerialClose])"
  by (simp add: motor_defs)

lemma close_when_disconnected:
  "ser s = None \<Longrightarrow> serial_close env s = (None, s, [])"
  "sock w = None \<Longrightarrow> wifi_close wenv w = (None, w, [])"
  by (simp_all add: serial_close_def wifi_close_def)

lemma close_returns:
  "close_result env = Returns () \<Longrightarrow> fst (serial_close env s) = None"
  "sock_close_result wenv = Returns () \<Longrightarrow> fst (wifi_close wenv w) = None"
  by (auto simp: serial_close_def wifi_close_def split: option.splits)

lemma Socket_only: "(k::Socket) = Socket"
  by (cases k) simp

text \<open>
  \<^bold>\<open>C10\<close>. \<^verbatim>\<open>_ensure_connection\<close> of the UDP connector answers true exactly when a socket
  object is there already or the creation of the socket returns, and false exactly when
  there is none and the creation raises; it sends nothing; neither its answer nor what it
  does depends on the configured address and port, nor on what a send would do. A send to
  a bad address fails in \<^verbatim>\<open>connect\<close>, after \<^verbatim>\<open>_ensure_connection\<close> has answered true.
\<close>

theorem udp_ensure_is_local:
  "fst (wifi_ensure_connection env s) = (sock s \<noteq> None \<or> socket_result env = Returns Socket)
   \<and> (\<not> fst (wifi_ensure_connection env s)) = (sock s = None \<and> (\<exists>e. socket_result env = Raises e))
   \<and> writes_of (snd (snd (wifi_ensure_connection env s))) = []
   \<and> fst (wifi_ensure_connection env (s\<lparr>wifi_config := c\<rparr>)) = fst (wifi_ensure_connection env s)
   \<and> snd (snd (wifi_ensure_connection env (s\<lparr>wifi_config := c\<rparr>)))
       = snd (snd (wifi_ensure_connection env s))
   \<and> fst (wifi_ensure_connection (env\<lparr>sendto_result := r\<rparr>) s) = fst (wifi_ensure_connection env s)"
  using Socket_only
  by (cases "socket_result env") (auto simp: wifi_ensure_connection_def split: io.splits)

theorem udp_ensure_is_local_witness:
  "fst (wifi_ensure_connection
     \<lparr>socket_result = Returns Socket, sendto_result = Raises ''no route to host'',
      sock_close_result = Returns ()\<rparr>
     (WifiMotor_init \<lparr>ip_address = ''not an address'', udp_port = 8888\<rparr>))
   \<and> fst (wifi_connect
     \<lparr>socket_result = Returns Socket, sendto_result = Raises ''no route to host'',
      sock_close_result = Returns ()\<rparr>
     \<lparr>action = Plain ''forward''\<rparr>
     (WifiMotor_init \<lparr>ip_address = ''not an address'', udp_port = 8888\<rparr>)) = None"
  using udp_ensure_is_local
    [of "\<lparr>socket_result = Returns Socket, sendto_result = Raises ''no route to host'',
          sock_close_result = Returns ()\<rparr>"
        "WifiMotor_init \<lparr>ip_address = ''not an address'', udp_port = 8888\<rparr>"]
  by (simp add: motor_defs WifiMotor_init_def)

section \<open>The text buffers\<close>

lemma contains_text_here: "contains_text (label @ after) label"
proof (cases "label @ after")
  case Nil
  then show ?thesis by simp
next
  case (Cons c cs)
  have "take (length label) (label @ after) = label" by simp
  with Cons show ?thesis by simp
qed

lemma contains_text_append: "contains_text (before @ label @ after) label"
proof (induction before)
  case Nil
  show ?case using contains_text_here by simp
next
  case (Cons c cs)
  then show ?case by simp
qed

lemma contains_text_iff: "contains_text text label \<longleftrightarrow> (\<exists>before after. text = before @ label @ after)"
proof
  show "contains_text text label \<Longrightarrow> \<exists>before after. text = before @ label @ after"
  proof (induction "text")
    case Nil
    then show ?case by simp
  next
    case (Cons c cs)
    from Cons.prems have "take (length label) (c # cs) = label \<or> contains_text cs label" by simp
    then show ?case
    proof
      assume "take (length label) (c # cs) = label"
      then have "c # cs = [] @ label @ drop (length label) (c # cs)"
        by (metis append_Nil append_take_drop_id)
      then show ?thesis by blast
    next
      assume "contains_text cs label"
      then obtain b a where "cs = b @ label @ a" using Cons.IH by blast
      then have "c # cs = (c # b) @ label @ a" by simp
      then show ?thesis by blast
    qed
  qed
next
  show "\<exists>before after. text = before @ label @ after \<Longrightarrow> contains_text text label"
    using contains_text_append by blast
qed

lemma produce_on_empty:
  "messages s = [] \<Longrightarrow> control_raw_to_text t (Some m) s = s\<lparr>messages := [m]\<rparr>"
  by (simp add: control_raw_to_text_def control_private_raw_to_text_def)

lemma produce_on_nonempty:
  "messages s \<noteq> [] \<Longrightarrow>
     control_raw_to_text t (Some m) s =
       s\<lparr>messages := (messages s)[length (messages s) - 1 := last (messages s) @ '' '' @ m]\<rparr>"
  by (simp add: control_raw_to_text_def control_private_raw_to_text_def)

lemma produce_none: "control_raw_to_text t None s = s"
  by (simp add: control_raw_to_text_def control_private_raw_to_text_def)

lemma control_drain_empty:
  "messages s = [] \<Longrightarrow> control_formatted_latest_buffer now s = (None, s)"
  by (simp add: control_formatted_latest_buffer_def)

lemma control_drain_nonempty:
  assumes "messages s \<noteq> []"
  shows "control_formatted_latest_buffer now s =
     (Some (''User Command: '' @ last (messages s)),
      s\<lparr>io_provider := io_provider s @ [(descriptor_for_LLM s, last (messages s), now)],
        conversation_provider := conversation_provider s @ [last (messages s)],
        messages := []\<rparr>)"
  using assms by (simp add: control_formatted_latest_buffer_def Let_def)

lemma video_drain_empty:
  "cam_messages v = [] \<Longrightarrow> video_formatted_latest_buffer v = (None, v)"
  by (simp add: video_formatted_latest_buffer_def)

lemma video_drain_nonempty:
  assumes "cam_messages v \<noteq> []"
  shows "video_formatted_latest_buffer v =
     (Some (envelope (cam_descriptor_for_LLM v) (message (last (cam_messages v)))),
      v\<lparr>cam_io_provider := cam_io_provider v
           @ [(class_name, message (last (cam_messages v)), timestamp (last (cam_messages v)))],
        cam_messages := []\<rparr>)"
  using assms by (simp add: video_formatted_latest_buffer_def Let_def envelope_def)

lemma envelope_contains:
  "contains_text (envelope d m) d" "contains_text (envelope d m) m"
proof -
  show "contains_text (envelope d m) d"
    unfolding envelope_def using contains_text_append[of "newline @ ''INPUT: ''" d] by simp
  have "contains_text ((newline @ ''INPUT: '' @ d @ newline @ ''// START'' @ newline) @ m
          @ (newline @ ''// END'' @ newline)) m"
    by (rule contains_text_append)
  then show "contains_text (envelope d m) m"
    unfolding envelope_def by (simp only: append_assoc)
qed

lemma user_command_contains: "contains_text (''User Command: '' @ m) ''User''"
  using contains_text_append[of "[]" "''User''" "'' Command: '' @ m"] by simp

text \<open>
  \<^bold>\<open>C6\<close>. Append-and-concatenate in the operator-command source: on an empty buffer a
  Message \<open>a\<close> becomes the sole entry, and a following Message \<open>b\<close>, with no drain in
  between, leaves one entry, \<open>a\<close>, a space and \<open>b\<close>. On a buffer that is not empty no
  entry is added: the last one gets a space and the new text appended.
\<close>

theorem append_and_concatenate:
  "(messages s = [] \<longrightarrow>
      messages (control_raw_to_text t1 (Some a) s) = [a]
      \<and> messages (control_raw_to_text t2 (Some b) (control_raw_to_text t1 (Some a) s))
          = [a @ '' '' @ b])
   \<and> (messages s \<noteq> [] \<longrightarrow>
      length (messages (control_raw_to_text t1 (Some a) s)) = length (messages s)
      \<and> last (messages (control_raw_to_text t1 (Some a) s)) = last (messages s) @ '' '' @ a)"
  by (simp add: produce_on_empty produce_on_nonempty last_list_update)

theorem append_and_concatenate_witness:
  "messages Esp32Control_init = []
   \<and> messages (control_raw_to_text 2 (Some ''b'')
        (control_raw_to_text 1 (Some ''a'') Esp32Control_init)) = [''a b'']
   \<and> messages (Esp32Control_init\<lparr>messages := [''a b'']\<rparr>) \<noteq> []
   \<and> messages (control_raw_to_text 3 (Some ''c'') (Esp32Control_init\<lparr>messages := [''a b'']\<rparr>))
       = [''a b c'']"
proof -
  have "messages (control_raw_to_text 3 (Some ''c'') (Esp32Control_init\<lparr>messages := [''a b'']\<rparr>))
        = [''a b c'']"
    by (simp add: produce_on_nonempty)
  then show ?thesis
    using append_and_concatenate [of Esp32Control_init 1 "''a''" 2 "''b''"]
      append_and_concatenate [of "Esp32Control_init\<lparr>messages := [''a b'']\<rparr>" 3 "''c''"]
    by (simp add: Esp32Control_init_def)
qed

text \<open>
  \<^bold>\<open>C5\<close>. Claimed: a drain of a buffer that is not empty forwards the text of the Message
  and the time stamp of the Message to \<^verbatim>\<open>io_provider.add_input\<close>. The operator-command
  source keeps texts only (\<^verbatim>\<open>self.messages: list[str]\<close>) and forwards the reading of
  \<^verbatim>\<open>time.time()\<close> taken in the drain: a Message made at time 1 and drained at time 2 is
  forwarded with time stamp 2.
\<close>

theorem drain_forwards_clock_not_message_time:
  "control_private_raw_to_text 1 (Some ''go'') = Some \<lparr>timestamp = 1, message = ''go''\<rparr>
   \<and> io_provider (snd (control_formatted_latest_buffer 2
         (control_raw_to_text 1 (Some ''go'') Esp32Control_init))) = [(''User'', ''go'', 2)]
   \<and> io_provider (snd (control_formatted_latest_buffer 2
         (control_raw_to_text 1 (Some ''go'') Esp32Control_init)))
       \<noteq> [(''User'', ''go'', timestamp \<lparr>timestamp = 1, message = ''go''\<rparr>)]"
  by (simp add: control_private_raw_to_text_def control_raw_to_text_def
      control_formatted_latest_buffer_def Esp32Control_init_def Let_def)

text \<open>
  \<^bold>\<open>C5\<close>, as the code has it. A drain of an empty buffer returns none and changes
  nothing. A drain of a buffer that is not empty returns a text built from the last entry
  that contains the descriptor label of the source, forwards the text of that entry to
  \<^verbatim>\<open>io_provider.add_input\<close> (with the time stamp of the Message in the video source, with
  the clock reading at the drain in the operator-command source), and empties the buffer,
  so that a drain right after it returns none.
\<close>

theorem drain_contract:
  "(messages s = [] \<longrightarrow> control_formatted_latest_buffer now s = (None, s))
   \<and> (messages s \<noteq> [] \<and> descriptor_for_LLM s = ''User'' \<longrightarrow>
        fst (control_formatted_latest_buffer now s) = Some (''User Command: '' @ last (messages s))
        \<and> contains_text (''User Command: '' @ last (messages s)) (descriptor_for_LLM s)
        \<and> io_provider (snd (control_formatted_latest_buffer now s))
            = io_provider s @ [(descriptor_for_LLM s, last (messages s), now)]
        \<and> messages (snd (control_formatted_latest_buffer now s)) = []
        \<and> fst (control_formatted_latest_buffer later
                 (snd (control_formatted_latest_buffer now s))) = None)
   \<and> (cam_messages v = [] \<longrightarrow> video_formatted_latest_buffer v = (None, v))
   \<and> (cam_messages v \<noteq> [] \<longrightarrow>
        fst (video_formatted_latest_buffer v)
          = Some (envelope (cam_descriptor_for_LLM v) (message (last (cam_messages v))))
        \<and> contains_text (envelope (cam_descriptor_for_LLM v) (message (last (cam_messages v))))
             (cam_descriptor_for_LLM v)
        \<and> cam_io_provider (snd (video_formatted_latest_buffer v))
            = cam_io_provider v
              @ [(class_name, message (last (cam_messages v)), timestamp (last (cam_messages v)))]
        \<and> cam_messages (snd (video_formatted_latest_buffer v)) = []
        \<and> fst (video_formatted_latest_buffer (snd (video_formatted_latest_buffer v))) = None)"
proof -
  have 1: "messages s = [] \<longrightarrow> control_formatted_latest_buffer now s = (None, s)"
    by (simp add: control_drain_empty)
  have 2: "messages s \<noteq> [] \<and> descriptor_for_LLM s = ''User'' \<longrightarrow>
        fst (control_formatted_latest_buffer now s) = Some (''User Command: '' @ last (messages s))
        \<and> contains_text (''User Command: '' @ last (messages s)) (descriptor_for_LLM s)
        \<and> io_provider (snd (control_formatted_latest_buffer now s))
            = io_provider s @ [(descriptor_for_LLM s, last (messages s), now)]
        \<and> messages (snd (control_formatted_latest_buffer now s)) = []
        \<and> fst (control_formatted_latest_buffer later
                 (snd (control_formatted_latest_buffer now s))) = None"
    using user_command_contains by (simp add: control_drain_nonempty control_drain_empty)
  have 3: "cam_messages v = [] \<longrightarrow> video_formatted_latest_buffer v = (None, v)"
    by (simp add: video_drain_empty)
  have 4: "cam_messages v \<noteq> [] \<longrightarrow>
        fst (video_formatted_latest_buffer v)
          = Some (envelope (cam_descriptor_for_LLM v) (message (last (cam_messages v))))
        \<and> contains_text (envelope (cam_descriptor_for_LLM v) (message (last (cam_messages v))))
             (cam_descriptor_for_LLM v)
        \<and> cam_io_provider (snd (video_formatted_latest_buffer v))
            = cam_io_provider v
              @ [(class_name, message (last (cam_messages v)), timestamp (last (cam_messages v)))]
        \<and> cam_messages (snd (video_formatted_latest_buffer v)) = []
        \<and> fst (video_formatted_latest_buffer (snd (video_formatted_latest_buffer v))) = None"
    using envelope_contains(1) by (simp add: video_drain_nonempty video_drain_empty)
  from 1 2 3 4 show ?thesis by blast
qed

theorem drain_contract_witness:
  "messages (control_raw_to_text 1 (Some ''go'') Esp32Control_init) \<noteq> []
   \<and> descriptor_for_LLM (control_raw_to_text 1 (Some ''go'') Esp32Control_init) = ''User''
   \<and> fst (control_formatted_latest_buffer 2 (control_raw_to_text 1 (Some ''go'') Esp32Control_init))
       = Some ''User Command: go''
   \<and> fst (control_formatted_latest_buffer 3 (snd (control_formatted_latest_buffer 2
         (control_raw_to_text 1 (Some ''go'') Esp32Control_init)))) = None
   \<and> messages Esp32Control_init = []
   \<and> control_formatted_latest_buffer 2 Esp32Control_init = (None, Esp32Control_init)
   \<and> cam_messages (Esp32CamVideo_init ''http://192.168.1.100:81/stream'' ''http'' 5 False
         (Returns (VideoCapture ''http://192.168.1.100:81/stream''))) = []
   \<and> cam_messages ((Esp32CamVideo_init ''http://192.168.1.100:81/stream'' ''http'' 5 False
         (Returns (VideoCapture ''http://192.168.1.100:81/stream'')))
         \<lparr>cam_messages := [\<lparr>timestamp = 7, message = ''frame''\<rparr>]\<rparr>) \<noteq> []
   \<and> cam_io_provider (snd (video_formatted_latest_buffer
         ((Esp32CamVideo_init ''http://192.168.1.100:81/stream'' ''http'' 5 False
            (Returns (VideoCapture ''http://192.168.1.100:81/stream'')))
          \<lparr>cam_messages := [\<lparr>timestamp = 7, message = ''frame''\<rparr>]\<rparr>)))
       = [(''Esp32CamVideo'', ''frame'', 7)]
   \<and> fst (video_formatted_latest_buffer (snd (video_formatted_latest_buffer
         ((Esp32CamVideo_init ''http://192.168.1.100:81/stream'' ''http'' 5 False
            (Returns (VideoCapture ''http://192.168.1.100:81/stream'')))
          \<lparr>cam_messages := [\<lparr>timestamp = 7, message = ''frame''\<rparr>]\<rparr>)))) = None"
proof -
  let ?s = "control_raw_to_text 1 (Some ''go'') Esp32Control_init"
  let ?u = "Esp32CamVideo_init ''http://192.168.1.100:81/stream'' ''http'' 5 False
         (Returns (VideoCapture ''http://192.168.1.100:81/stream''))"
  let ?v = "?u\<lparr>cam_messages := [\<lparr>timestamp = 7, message = ''frame''\<rparr>]\<rparr>"
  have e: "messages Esp32Control_init = []" by (simp add: Esp32Control_init_def)
  have s: "?s = Esp32Control_init\<lparr>messages := [''go'']\<rparr>"
    using e by (rule produce_on_empty)
  have h: "messages ?s \<noteq> [] \<and> descriptor_for_LLM ?s = ''User''"
    by (simp add: s) (simp add: Esp32Control_init_def)
  have l: "last (messages ?s) = ''go''" by (simp add: s)
  have u: "cam_messages ?u = [] \<and> cam_io_provider ?u = []"
    by (simp add: Esp32CamVideo_init_def)
  have v: "cam_messages ?v \<noteq> [] \<and> last (cam_messages ?v) = \<lparr>timestamp = 7, message = ''frame''\<rparr>
           \<and> cam_io_provider ?v = []"
    by (simp add: Esp32CamVideo_init_def)
  show ?thesis
    using h e l u v drain_contract [of ?s 2 3 ?v] drain_contract [of Esp32Control_init 2 3 ?u]
    by (simp add: class_name_def)
qed

section \<open>The video capture under failed reads\<close>

lemma video_poll_state: "fst (snd (snd (video_poll env s))) = s"
  by (simp add: video_poll_def split: option.splits prod.splits)

lemma video_poll_no_release: "releases_of (snd (snd (snd (video_poll env s)))) = 0"
  by (simp add: video_poll_def split: option.splits prod.splits)

lemma video_poll_zero_rate:
  "fps s = 0 \<Longrightarrow> video_poll env s = (Some ''ZeroDivisionError'', None, s, [])"
  by (simp add: video_poll_def)

lemma video_poll_returns: "fps s \<noteq> 0 \<Longrightarrow> fst (video_poll env s) = None"
  by (simp add: video_poll_def split: option.splits prod.splits)

text \<open>
  \<^bold>\<open>C8\<close>. A poll of the video source that gets to its sampling step (the rate is not
  zero, so the sleep before it does not raise) and whose capture is missing or reports
  itself not open, or whose read gives no frame, returns normally, yields no sample and
  logs at most the one warning: nothing when the capture is missing or not open, the
  warning when the read gives no frame. No poll changes the source, its capture handle
  included, and no poll releases the capture; \<^verbatim>\<open>stop\<close> releases it when it is there and
  open.
\<close>

theorem failed_poll_leaves_capture:
  "(fps s \<noteq> 0 \<and> (cap s = None \<or> \<not> isOpened_result env \<or> \<not> fst (read_result env)) \<longrightarrow>
      fst (video_poll env s) = None
      \<and> fst (snd (video_poll env s)) = None
      \<and> (warnings_of (snd (snd (snd (video_poll env s)))) = []
          \<or> warnings_of (snd (snd (snd (video_poll env s))))
               = [''Failed to read frame from video stream''])
      \<and> logs_of (snd (snd (snd (video_poll env s))))
          = map LogWarning (warnings_of (snd (snd (snd (video_poll env s))))))
   \<and> (fps s \<noteq> 0 \<and> (cap s = None \<or> \<not> isOpened_result env) \<longrightarrow>
      logs_of (snd (snd (snd (video_poll env s)))) = [])
   \<and> (fps s \<noteq> 0 \<and> cap s \<noteq> None \<and> isOpened_result env \<and> \<not> fst (read_result env) \<longrightarrow>
      logs_of (snd (snd (snd (video_poll env s))))
        = [LogWarning ''Failed to read frame from video stream''])
   \<and> fst (snd (snd (video_poll env s))) = s
   \<and> cap (fst (snd (snd (video_poll env s)))) = cap s
   \<and> releases_of (snd (snd (snd (video_poll env s)))) = 0
   \<and> (cap s \<noteq> None \<and> isOpened_result env \<longrightarrow> releases_of (snd (video_stop env s)) = 1)"
proof -
  have a: "fps s \<noteq> 0 \<and> (cap s = None \<or> \<not> isOpened_result env \<or> \<not> fst (read_result env)) \<longrightarrow>
      fst (video_poll env s) = None
      \<and> fst (snd (video_poll env s)) = None
      \<and> (warnings_of (snd (snd (snd (video_poll env s)))) = []
          \<or> warnings_of (snd (snd (snd (video_poll env s))))
               = [''Failed to read frame from video stream''])
      \<and> logs_of (snd (snd (snd (video_poll env s))))
          = map LogWarning (warnings_of (snd (snd (snd (video_poll env s)))))"
    by (auto simp: video_poll_def split: option.splits prod.splits)
  have b: "fps s \<noteq> 0 \<and> (cap s = None \<or> \<not> isOpened_result env) \<longrightarrow>
      logs_of (snd (snd (snd (video_poll env s)))) = []"
    by (auto simp: video_poll_def split: option.splits prod.splits)
  have c: "fps s \<noteq> 0 \<and> cap s \<noteq> None \<and> isOpened_result env \<and> \<not> fst (read_result env) \<longrightarrow>
      logs_of (snd (snd (snd (video_poll env s))))
        = [LogWarning ''Failed to read frame from video stream'']"
    by (auto simp: video_poll_def split: option.splits prod.splits)
  have d: "cap s \<noteq> None \<and> isOpened_result env \<longrightarrow> releases_of (snd (video_stop env s)) = 1"
    by (auto simp: video_stop_def split: option.splits)
  have e: "cap (fst (snd (snd (video_poll env s)))) = cap s"
    by (simp add: video_poll_state)
  from a b c d e video_poll_state[of env s] video_poll_no_release[of env s]
  show ?thesis by blast
qed

theorem failed_poll_leaves_capture_witness:
  "fps (Esp32CamVideo_init ''http://192.168.1.100:81/stream'' ''http'' 5 False
          (Returns (VideoCapture ''http://192.168.1.100:81/stream''))) \<noteq> 0
   \<and> \<not> fst (read_result \<lparr>isOpened_result = True, read_result = (False, None)\<rparr>)
   \<and> video_poll \<lparr>isOpened_result = True, read_result = (False, None)\<rparr>
        (Esp32CamVideo_init ''http://192.168.1.100:81/stream'' ''http'' 5 False
           (Returns (VideoCapture ''http://192.168.1.100:81/stream'')))
      = (None, None,
         Esp32CamVideo_init ''http://192.168.1.100:81/stream'' ''http'' 5 False
           (Returns (VideoCapture ''http://192.168.1.100:81/stream'')),
         [Sleep, CapIsOpened, CapRead, LogWarning ''Failed to read frame from video stream''])
   \<and> \<not> isOpened_result \<lparr>isOpened_result = False, read_result = (False, None)\<rparr>
   \<and> video_poll \<lparr>isOpened_result = False, read_result = (False, None)\<rparr>
        (Esp32CamVideo_init ''http://192.168.1.100:81/stream'' ''http'' 5 False
           (Returns (VideoCapture ''http://192.168.1.100:81/stream'')))
      = (None, None,
         Esp32CamVideo_init ''http://192.168.1.100:81/stream'' ''http'' 5 False
           (Returns (VideoCapture ''http://192.168.1.100:81/stream'')),
         [Sleep, CapIsOpened])
   \<and> cap (Esp32CamVideo_init ''http://192.168.1.100:81/stream'' ''http'' 5 False
          (Raises ''cannot open'')) = None
   \<and> video_poll \<lparr>isOpened_result = False, read_result = (False, None)\<rparr>
        (Esp32CamVideo_init ''http://192.168.1.100:81/stream'' ''http'' 5 False
           (Raises ''cannot open''))
      = (None, None,
         Esp32CamVideo_init ''http://192.168.1.100:81/stream'' ''http'' 5 False
           (Raises ''cannot open''),
         [Sleep])
   \<and> releases_of (snd (video_stop \<lparr>isOpened_result = True, read_result = (False, None)\<rparr>
        (Esp32CamVideo_init ''http://192.168.1.100:81/stream'' ''http'' 5 False
           (Returns (VideoCapture ''http://192.168.1.100:81/stream''))))) = 1"
  using failed_poll_leaves_capture
    [of "Esp32CamVideo_init ''http://192.168.1.100:81/stream'' ''http'' 5 False
           (Returns (VideoCapture ''http://192.168.1.100:81/stream''))"
        "\<lparr>isOpened_result = True, read_result = (False, None)\<rparr>"]
    failed_poll_leaves_capture
    [of "Esp32CamVideo_init ''http://192.168.1.100:81/stream'' ''http'' 5 False
           (Returns (VideoCapture ''http://192.168.1.100:81/stream''))"
        "\<lparr>isOpened_result = False, read_result = (False, None)\<rparr>"]
    failed_poll_leaves_capture
    [of "Esp32CamVideo_init ''http://192.168.1.100:81/stream'' ''http'' 5 False
           (Raises ''cannot open'')"
        "\<lparr>isOpened_result = False, read_result = (False, None)\<rparr>"]
  by (simp add: video_poll_def video_stop_def Esp32CamVideo_init_def)

section \<open>The thread bridge\<close>

lemma strip_empty_iff: "strip l = [] \<longleftrightarrow> list_all isspace l"
proof -
  have "strip l = [] \<longleftrightarrow> (\<forall>c \<in> set (dropWhile isspace l). isspace c)"
    by (simp only: strip_def rev_is_Nil_conv dropWhile_eq_Nil_conv set_rev)
  also have "\<dots> \<longleftrightarrow> dropWhile isspace l = []"
  proof
    assume a: "\<forall>c \<in> set (dropWhile isspace l). isspace c"
    show "dropWhile isspace l = []"
    proof (rule ccontr)
      assume n: "dropWhile isspace l \<noteq> []"
      then have "\<not> isspace (hd (dropWhile isspace l))" by (rule hd_dropWhile)
      moreover have "hd (dropWhile isspace l) \<in> set (dropWhile isspace l)" using n by simp
      ultimately show False using a by blast
    qed
  next
    assume "dropWhile isspace l = []"
    then have "set (dropWhile isspace l) = {}" by (simp only: list.set)
    then show "\<forall>c \<in> set (dropWhile isspace l). isspace c" by (simp only: ball_empty)
  qed
  also have "\<dots> \<longleftrightarrow> list_all isspace l"
    by (simp only: dropWhile_eq_Nil_conv list_all_iff)
  finally show ?thesis .
qed

lemma lines_read_dead: "lines_read sched False flag = []"
  by (induction sched False flag rule: lines_read.induct) simp_all

lemma run_bridge_invariant:
  "received (snd (run_bridge sched alive s)) @ message_buffer (snd (fst (run_bridge sched alive s)))
   = message_buffer s @ filter (\<lambda>l. strip l \<noteq> []) (lines_read sched alive (running s))"
proof (induction sched alive s rule: run_bridge.induct)
  case (1 alive s)
  show ?case by simp
next
  case (2 r rest alive s)
  show ?case
  proof (cases alive)
    case False
    with 2 show ?thesis by (simp add: lines_read_dead)
  next
    case True
    show ?thesis
    proof (cases "running s")
      case False
      with True 2 show ?thesis
        by (auto simp: input_loop_iteration_def lines_read_dead)
    next
      case run: True
      show ?thesis
      proof (cases r)
        case (Line l)
        show ?thesis
        proof (cases "strip l = []")
          case True
          with \<open>alive\<close> run Line 2 show ?thesis
            by (auto simp: input_loop_iteration_def)
        next
          case False
          with \<open>alive\<close> run Line 2
          show ?thesis
            by (auto simp: input_loop_iteration_def)
        qed
      next
        case EOFError
        with \<open>alive\<close> run 2 show ?thesis
          by (auto simp: input_loop_iteration_def lines_read_dead)
      next
        case (OtherError e)
        with \<open>alive\<close> run 2 show ?thesis
          by (auto simp: input_loop_iteration_def lines_read_dead)
      qed
    qed
  qed
next
  case (3 rest alive s)
  show ?case
  proof (cases "message_buffer s")
    case Nil
    with 3[of None s] show ?thesis
      by (auto simp: control_poll_def split: prod.splits)
  next
    case (Cons m q)
    with 3[of "Some m" "s\<lparr>message_buffer := q\<rparr>"] show ?thesis
      by (auto simp: control_poll_def split: prod.splits)
  qed
next
  case (4 rest alive s)
  then show ?case by (simp add: control_stop_def)
qed

text \<open>
  \<^bold>\<open>C9\<close>. Under every schedule of thread turns, polls and stops, what the polls have
  received so far, followed by what is still in the queue, is what the queue held at the
  start followed by the lines read by the thread that are not blank or white space only,
  in the order they were read. So no blank line enters the queue, every other line read
  does, and the polls take them out in the order of arrival.
\<close>

theorem bridge_fifo:
  "received (snd (run_bridge sched alive s)) @ message_buffer (snd (fst (run_bridge sched alive s)))
   = message_buffer s @ filter (\<lambda>l. \<not> list_all isspace l) (lines_read sched alive (running s))"
  using run_bridge_invariant[of sched alive s] by (simp add: strip_empty_iff)

theorem bridge_fifo_witness:
  "snd (run_bridge
     [ThreadTurn (Line ''left''), ThreadTurn (Line ''  ''), PollCall, ThreadTurn (Line ''stop''),
      StopCall, ThreadTurn (Line ''right''), PollCall, PollCall] True Esp32Control_init)
   = [Some ''left'', Some ''stop'', None]
   \<and> lines_read
     [ThreadTurn (Line ''left''), ThreadTurn (Line ''  ''), PollCall, ThreadTurn (Line ''stop''),
      StopCall, ThreadTurn (Line ''right''), PollCall, PollCall] True True
   = [''left'', ''  '', ''stop'']
   \<and> message_buffer (snd (fst (run_bridge
     [ThreadTurn (Line ''left''), ThreadTurn (Line ''  ''), PollCall, ThreadTurn (Line ''stop''),
      StopCall, ThreadTurn (Line ''right''), PollCall, PollCall] True Esp32Control_init))) = []"
  using bridge_fifo
    [of "[ThreadTurn (Line ''left''), ThreadTurn (Line ''  ''), PollCall, ThreadTurn (Line ''stop''),
          StopCall, ThreadTurn (Line ''right''), PollCall, PollCall]" True Esp32Control_init]
  by (simp add: input_loop_iteration_def control_poll_def control_stop_def Esp32Control_init_def
      strip_def isspace_def)

end
